theory Spec2Isabelle
  imports Main "HOL-Library.AList"
begin

section \<open>JavaScript values, thrown values and Map objects\<close>

text \<open>
  Rows of the sync engine are plain objects. A row is an association list from property
  names to values; reading a property that is absent gives \<open>undefined\<close>. Numbers are
  integers here (no NaN). A JavaScript \<open>Map\<close> keeps its entries in insertion order and
  setting an existing key keeps that key's position: it is an association list handled
  with \<open>AList.update\<close> (replace in place, or append), \<open>AList.delete\<close> and \<open>map_of\<close>.
\<close>

datatype jsval = JUndefined | JNull | JBool bool | JNum int | JStr string

type_synonym row = "(string \<times> jsval) list"

definition property :: "row \<Rightarrow> string \<Rightarrow> jsval" where
  "property r k = (case map_of r k of None \<Rightarrow> JUndefined | Some v \<Rightarrow> v)"

fun truthy :: "jsval \<Rightarrow> bool" where
  "truthy JUndefined = False"
| "truthy JNull = False"
| "truthy (JBool b) = b"
| "truthy (JNum n) = (n \<noteq> 0)"
| "truthy (JStr s) = (s \<noteq> [])"

definition js_or :: "jsval \<Rightarrow> jsval \<Rightarrow> jsval" where
  "js_or a b = (if truthy a then a else b)"

text \<open>A thrown value: an instance of \<open>Error\<close> with its message, or any other value.\<close>

datatype thrown = Error string | NonError jsval

text \<open>A parameterless function of the wrapped library: it returns, or it throws.\<close>

datatype thunk = Returns | Throws thrown

fun startsWith :: "string \<Rightarrow> string \<Rightarrow> bool" where
  "startsWith s [] = True"
| "startsWith [] (c # cs) = False"
| "startsWith (d # ds) (c # cs) = (d = c \<and> startsWith ds cs)"

text \<open>\<open>String.prototype.includes\<close>: the case-sensitive substring test.\<close>

fun js_includes :: "string \<Rightarrow> string \<Rightarrow> bool" where
  "js_includes [] s = startsWith [] s"
| "js_includes (d # ds) s = (startsWith (d # ds) s \<or> js_includes ds s)"

section \<open>The sync engine's interface\<close>

datatype node = Node (row: row)

datatype change =
    AddChange node
  | RemoveChange node
  | ChildChange node string change
  | EditChange node node

fun change_node :: "change \<Rightarrow> node" where
  "change_node (AddChange n) = n"
| "change_node (RemoveChange n) = n"
| "change_node (ChildChange n rel c) = n"
| "change_node (EditChange n old) = n"

datatype format = Format (singular: bool) (relationships: "(string \<times> format) list")

datatype resultType = Complete | Unknown

datatype queryComplete = LiteralTrue | PromiseTrue

text \<open>The value held under the key \<open>""\<close> of the view's root entry.\<close>

datatype 'v result = RUndefined | RList "'v list" | ROne 'v

record 's input =
  fetch :: "node list"
  getSchema :: 's

text \<open>
  What the adapter calls and does not define: the engine's \<open>applyChange\<close> (it
  updates the root entry and the reference-count map it is handed), a fresh
  \<open>WeakMap\<close>, and the built-ins \<open>String\<close> and \<open>JSON.stringify\<close>. They are
  parameters of the model; every theorem below holds for all of them.
\<close>

record ('v, 'rc, 's) lib =
  zero_applyChange :: "'v result \<Rightarrow> change \<Rightarrow> 's \<Rightarrow> format \<Rightarrow> 'rc \<Rightarrow> 'v result \<times> 'rc"
  newWeakMap :: 'rc
  js_String :: "jsval \<Rightarrow> string"
  JSON_stringify :: "row \<Rightarrow> string"

section \<open>Subscriptions and observable calls\<close>

text \<open>
  A callback is a handle: a function supplied by the user, or the \<open>onData\<close> closure
  that \<open>zeroQueryAtom\<close> builds (the store, the atom and \<open>syncOnData\<close> it captured).
  Calling a callback is recorded in a trace; callbacks are taken to return normally and
  not to call back into the view.
\<close>

datatype callback = UserFn nat | AtomSync nat nat bool

record changeFactorySubscriptions =
  key :: string
  onData :: "callback option"
  onAdd :: "callback option"
  onRemove :: "callback option"
  onUpdate :: "callback option"

datatype changeOperation = OpAdd | OpRemove | OpEdit

datatype functionKey = OnAdd | OnRemove | OnUpdate

text \<open>
  An entry of the trace: the \<open>onData\<close> of the subscription under a key called with
  the data and the status, a row callback of a subscription called with a row, or the
  \<open>onDestroy\<close> of the wrapped library called.
\<close>

datatype 'v event =
    OnDataCalled string callback "'v result" resultType
  | RowCalled string functionKey callback row
  | OnDestroyCalled

section \<open>ChangeListenerFactory\<close>

text \<open>
  The fields of the class. \<open>state_0\<close> is \<open>#state[0][""]\<close> and \<open>state_1\<close> is
  \<open>#state[1].type\<close>. \<open>timer\<close> is the state of the debounced function made by
  \<open>debounce(f, 100, {leading: false, trailing: true})\<close>: the time at which the pending
  trailing call is due, 100 ms after the latest call. \<open>thenPending\<close> says that the
  constructor registered a continuation on the \<open>queryComplete\<close> promise.
\<close>

record ('v, 'rc, 's) changeListenerFactory =
  input :: "'s input"
  format :: format
  onDestroy :: thunk
  refCountMap :: 'rc
  state_0 :: "'v result"
  state_1 :: resultType
  thenPending :: bool
  consolidatedCallbacks :: "(string \<times> row) list"
  timer :: "nat option"
  subscriptions :: "(string \<times> changeFactorySubscriptions) list"

definition data :: "('v, 'rc, 's) changeListenerFactory \<Rightarrow> 'v result" where
  "data v = state_0 v"

definition status :: "('v, 'rc, 's) changeListenerFactory \<Rightarrow> resultType" where
  "status v = state_1 v"

text \<open>\<open>#onData\<close>: the calls it makes, in the order of the subscriptions.\<close>

definition onData_calls :: "('v, 'rc, 's) changeListenerFactory \<Rightarrow> 'v event list" where
  "onData_calls v =
     concat (map (\<lambda>(k, callbacks).
        case onData callbacks of
          None \<Rightarrow> []
        | Some f \<Rightarrow> [OnDataCalled k f (data v) (status v)]) (subscriptions v))"

definition hasSubscribers :: "('v, 'rc, 's) changeListenerFactory \<Rightarrow> bool" where
  "hasSubscribers v = (length (subscriptions v) \<noteq> 0)"

definition addSubscriptions ::
  "changeFactorySubscriptions \<Rightarrow> ('v, 'rc, 's) changeListenerFactory
     \<Rightarrow> ('v, 'rc, 's) changeListenerFactory" where
  "addSubscriptions opts v = v\<lparr>subscriptions := AList.update (key opts) opts (subscriptions v)\<rparr>"

definition removeSubscriptions ::
  "string \<Rightarrow> ('v, 'rc, 's) changeListenerFactory \<Rightarrow> ('v, 'rc, 's) changeListenerFactory" where
  "removeSubscriptions k v = v\<lparr>subscriptions := AList.delete k (subscriptions v)\<rparr>"

text \<open>
  \<open>destroy\<close> returns the view, the trace and the error that leaves it, if any. Both
  maps are cleared before \<open>onDestroy\<close> runs, so they stay cleared when it throws.
\<close>

definition destroy ::
  "('v, 'rc, 's) changeListenerFactory
     \<Rightarrow> ('v, 'rc, 's) changeListenerFactory \<times> 'v event list \<times> thrown option" where
  "destroy v =
     (let v1 = v\<lparr>consolidatedCallbacks := [], subscriptions := []\<rparr> in
      case onDestroy v of
        Returns \<Rightarrow> (v1, [OnDestroyCalled], None)
      | Throws e \<Rightarrow>
          (case e of
             Error message \<Rightarrow>
               if js_includes message ''Connection not found''
               then (v1, [OnDestroyCalled], None)
               else (v1, [OnDestroyCalled], Some e)
           | NonError x \<Rightarrow> (v1, [OnDestroyCalled], Some e)))"

text \<open>\<open>#applyChange\<close>: the engine updates the state, then \<open>#onData\<close> runs.\<close>

definition applyChange ::
  "('v, 'rc, 's) lib \<Rightarrow> change \<Rightarrow> ('v, 'rc, 's) changeListenerFactory
     \<Rightarrow> ('v, 'rc, 's) changeListenerFactory \<times> 'v event list" where
  "applyChange L c v =
     (let (e, rc) = zero_applyChange L (state_0 v) c (getSchema (input v)) (format v)
                      (refCountMap v);
          v1 = v\<lparr>state_0 := e, refCountMap := rc\<rparr>
      in (v1, onData_calls v1))"

definition getNodeId :: "('v, 'rc, 's) lib \<Rightarrow> node \<Rightarrow> string" where
  "getNodeId L n =
     (let r = row n; id = js_or (property r ''id'') (property r ''ID'') in
      if truthy id then js_String L id else JSON_stringify L r)"

fun opName :: "changeOperation \<Rightarrow> string" where
  "opName OpAdd = ''add''"
| "opName OpRemove = ''remove''"
| "opName OpEdit = ''edit''"

definition createDebounceKey :: "changeOperation \<Rightarrow> string \<Rightarrow> string" where
  "createDebounceKey type nodeId = opName type @ ''-'' @ nodeId"

text \<open>The first element of \<open>debounceKey.split("-")\<close>.\<close>

definition decriptDebounceKey :: "string \<Rightarrow> string" where
  "decriptDebounceKey debounceKey = takeWhile (\<lambda>c. c \<noteq> CHR ''-'') debounceKey"

text \<open>The \<open>switch\<close> has no default: any other string gives \<open>undefined\<close>.\<close>

definition typeToFunctionKey :: "string \<Rightarrow> functionKey option" where
  "typeToFunctionKey type =
     (if type = ''add'' then Some OnAdd
      else if type = ''remove'' then Some OnRemove
      else if type = ''edit'' then Some OnUpdate
      else None)"

text \<open>
  \<open>callbacks[functionKey]\<close>: the property name with the function found under it;
  under \<open>undefined\<close> there is no property.
\<close>

fun callbackAt ::
  "changeFactorySubscriptions \<Rightarrow> functionKey option \<Rightarrow> (functionKey \<times> callback) option" where
  "callbackAt callbacks None = None"
| "callbackAt callbacks (Some OnAdd) = map_option (Pair OnAdd) (onAdd callbacks)"
| "callbackAt callbacks (Some OnRemove) = map_option (Pair OnRemove) (onRemove callbacks)"
| "callbackAt callbacks (Some OnUpdate) = map_option (Pair OnUpdate) (onUpdate callbacks)"

text \<open>The inner loop of \<open>#handleConsolidated\<close> for one entry of the queue.\<close>

definition entry_calls ::
  "(string \<times> changeFactorySubscriptions) list \<Rightarrow> string \<times> row \<Rightarrow> 'v event list" where
  "entry_calls subs e =
     (case e of (debounceKey, d) \<Rightarrow>
        (let type = decriptDebounceKey debounceKey;
             functionKey = typeToFunctionKey type
         in concat (map (\<lambda>(k, callbacks).
              case callbackAt callbacks functionKey of
                None \<Rightarrow> []
              | Some (name, f) \<Rightarrow> [RowCalled k name f d]) subs)))"

definition handleConsolidated ::
  "('v, 'rc, 's) changeListenerFactory \<Rightarrow> ('v, 'rc, 's) changeListenerFactory \<times> 'v event list" where
  "handleConsolidated v =
     (v\<lparr>consolidatedCallbacks := []\<rparr>,
      concat (map (entry_calls (subscriptions v)) (consolidatedCallbacks v)))"

text \<open>
  \<open>#consolidateChanges\<close> at time \<open>now\<close> (milliseconds): the entry is stored and the
  debounced function is called, which moves the pending trailing call to \<open>now + 100\<close>.
\<close>

definition consolidateChanges ::
  "nat \<Rightarrow> changeOperation \<Rightarrow> string \<Rightarrow> row \<Rightarrow> ('v, 'rc, 's) changeListenerFactory
     \<Rightarrow> ('v, 'rc, 's) changeListenerFactory" where
  "consolidateChanges now changeType nodeId d v =
     (let debounceKey = createDebounceKey changeType nodeId in
      v\<lparr>consolidatedCallbacks := AList.update debounceKey d (consolidatedCallbacks v),
        timer := Some (now + 100)\<rparr>)"

text \<open>The type of a change as a \<open>ChangeOperation\<close>; a \<open>child\<close> change has none.\<close>

fun change_operation :: "change \<Rightarrow> changeOperation option" where
  "change_operation (AddChange n) = Some OpAdd"
| "change_operation (RemoveChange n) = Some OpRemove"
| "change_operation (ChildChange n rel c) = None"
| "change_operation (EditChange n old) = Some OpEdit"

definition push ::
  "('v, 'rc, 's) lib \<Rightarrow> nat \<Rightarrow> change \<Rightarrow> ('v, 'rc, 's) changeListenerFactory
     \<Rightarrow> ('v, 'rc, 's) changeListenerFactory \<times> 'v event list" where
  "push L now c v =
     (let (v1, evs) = applyChange L c v;
          nodeId = getNodeId L (change_node c)
      in case change_operation c of
           None \<Rightarrow> (v1, evs)
         | Some type \<Rightarrow> (consolidateChanges now type nodeId (row (change_node c)) v1, evs))"

text \<open>The timer of the debounced function, looked at when the clock shows \<open>now\<close>.\<close>

definition runTimers ::
  "nat \<Rightarrow> ('v, 'rc, 's) changeListenerFactory
     \<Rightarrow> ('v, 'rc, 's) changeListenerFactory \<times> 'v event list" where
  "runTimers now v =
     (case timer v of
        None \<Rightarrow> (v, [])
      | Some due \<Rightarrow> if due \<le> now then handleConsolidated (v\<lparr>timer := None\<rparr>) else (v, []))"

text \<open>The loop of the constructor over the nodes of \<open>input.fetch({})\<close>.\<close>

fun fetchLoop ::
  "('v, 'rc, 's) lib \<Rightarrow> node list \<Rightarrow> ('v, 'rc, 's) changeListenerFactory
     \<Rightarrow> ('v, 'rc, 's) changeListenerFactory \<times> 'v event list" where
  "fetchLoop L [] v = (v, [])"
| "fetchLoop L (n # ns) v =
     (let (v1, e1) = applyChange L (AddChange n) v;
          (v2, e2) = fetchLoop L ns v1
      in (v2, e1 @ e2))"

text \<open>
  The constructor. \<open>format\<close> and \<open>onDestroy\<close> have default values, used when the
  argument is \<open>undefined\<close> (\<open>None\<close>).
\<close>

definition defaultFormat :: format where
  "defaultFormat = Format False []"

definition ChangeListenerFactory ::
  "('v, 'rc, 's) lib \<Rightarrow> 's input \<Rightarrow> format option \<Rightarrow> thunk option \<Rightarrow> queryComplete
     \<Rightarrow> changeFactorySubscriptions
     \<Rightarrow> ('v, 'rc, 's) changeListenerFactory \<times> 'v event list" where
  "ChangeListenerFactory L inp fmt onDestr qc subs =
     (let f = (case fmt of None \<Rightarrow> defaultFormat | Some f \<Rightarrow> f);
          v0 = \<lparr>input = inp,
                format = f,
                onDestroy = (case onDestr of None \<Rightarrow> Returns | Some t \<Rightarrow> t),
                refCountMap = newWeakMap L,
                state_0 = (if singular f then RUndefined else RList []),
                state_1 = (if qc = LiteralTrue then Complete else Unknown),
                thenPending = False,
                consolidatedCallbacks = [],
                timer = None,
                subscriptions = AList.update (key subs) subs []\<rparr>;
          (v1, evs) = fetchLoop L (fetch inp) v0
      in (v1\<lparr>thenPending := (qc \<noteq> LiteralTrue)\<rparr>, evs))"

text \<open>The continuation registered on the promise, run when the promise resolves.\<close>

definition queryCompleteResolved ::
  "('v, 'rc, 's) changeListenerFactory \<Rightarrow> ('v, 'rc, 's) changeListenerFactory" where
  "queryCompleteResolved v =
     (if thenPending v then v\<lparr>state_1 := Complete, thenPending := False\<rparr> else v)"

section \<open>Exceptions of the engine and of the callbacks\<close>

text \<open>
  The definitions above follow a call in which the engine's \<open>applyChange\<close> and every
  callback return. Either may throw, and the methods have no handler of their own: the
  exception leaves the method at that point and the statements after it do not run. What
  throws is a parameter: whether the engine throws on a change in a state, and whether a
  call, as the trace records it, throws.
\<close>

record ('v, 'rc, 's) faults =
  engineThrows :: "'v result \<Rightarrow> change \<Rightarrow> 's \<Rightarrow> format \<Rightarrow> 'rc \<Rightarrow> thrown option"
  callThrows :: "'v event \<Rightarrow> thrown option"

text \<open>The calls of a loop, made in order until one of them throws.\<close>

fun callsUntilThrow ::
  "('v event \<Rightarrow> thrown option) \<Rightarrow> 'v event list \<Rightarrow> 'v event list \<times> thrown option" where
  "callsUntilThrow throws [] = ([], None)"
| "callsUntilThrow throws (e # es) =
     (case throws e of
        Some x \<Rightarrow> ([e], Some x)
      | None \<Rightarrow> (let (made, r) = callsUntilThrow throws es in (e # made, r)))"

text \<open>
  \<open>#applyChange\<close> with exceptions. When the engine throws, the model leaves the state
  as it was; \<open>#onData\<close> stops at the first \<open>onData\<close> that throws.
\<close>

definition try_applyChange ::
  "('v, 'rc, 's) lib \<Rightarrow> ('v, 'rc, 's) faults \<Rightarrow> change \<Rightarrow> ('v, 'rc, 's) changeListenerFactory
     \<Rightarrow> ('v, 'rc, 's) changeListenerFactory \<times> 'v event list \<times> thrown option" where
  "try_applyChange L T c v =
     (case engineThrows T (state_0 v) c (getSchema (input v)) (format v) (refCountMap v) of
        Some x \<Rightarrow> (v, [], Some x)
      | None \<Rightarrow>
          (let (v1, evs) = applyChange L c v;
               (made, r) = callsUntilThrow (callThrows T) evs
           in (v1, made, r)))"

text \<open>\<open>push\<close> with exceptions: nothing is consolidated when \<open>#applyChange\<close> throws.\<close>

definition try_push ::
  "('v, 'rc, 's) lib \<Rightarrow> ('v, 'rc, 's) faults \<Rightarrow> nat \<Rightarrow> change
     \<Rightarrow> ('v, 'rc, 's) changeListenerFactory
     \<Rightarrow> ('v, 'rc, 's) changeListenerFactory \<times> 'v event list \<times> thrown option" where
  "try_push L T now c v =
     (let (v1, made, r) = try_applyChange L T c v in
      case r of
        Some x \<Rightarrow> (v1, made, Some x)
      | None \<Rightarrow>
          (let nodeId = getNodeId L (change_node c) in
           case change_operation c of
             None \<Rightarrow> (v1, made, None)
           | Some type \<Rightarrow>
               (consolidateChanges now type nodeId (row (change_node c)) v1, made, None)))"

text \<open>
  \<open>#handleConsolidated\<close> with exceptions: when a callback throws, the \<open>clear\<close> after
  the loops does not run and the queue stays as it is.
\<close>

definition try_handleConsolidated ::
  "('v, 'rc, 's) faults \<Rightarrow> ('v, 'rc, 's) changeListenerFactory
     \<Rightarrow> ('v, 'rc, 's) changeListenerFactory \<times> 'v event list \<times> thrown option" where
  "try_handleConsolidated T v =
     (let (v1, evs) = handleConsolidated v;
          (made, r) = callsUntilThrow (callThrows T) evs
      in case r of
           Some x \<Rightarrow> (v, made, Some x)
         | None \<Rightarrow> (v1, made, None))"

definition try_runTimers ::
  "('v, 'rc, 's) faults \<Rightarrow> nat \<Rightarrow> ('v, 'rc, 's) changeListenerFactory
     \<Rightarrow> ('v, 'rc, 's) changeListenerFactory \<times> 'v event list \<times> thrown option" where
  "try_runTimers T now v =
     (case timer v of
        None \<Rightarrow> (v, [], None)
      | Some due \<Rightarrow>
          if due \<le> now then try_handleConsolidated T (v\<lparr>timer := None\<rparr>) else (v, [], None))"

section \<open>The cache of views and the memoized atom\<close>

text \<open>
  A query of the sync engine, as far as the adapter uses it: its hash, and what
  \<open>query.materialize(factory)\<close> hands to the factory (the input, the format, the
  \<open>onDestroy\<close> of the engine and \<open>queryComplete\<close>).
\<close>

record 's query =
  hash :: string
  q_input :: "'s input"
  q_format :: format
  q_onDestroy :: thunk
  q_queryComplete :: queryComplete

definition getClientQueryKey :: "string \<Rightarrow> 's query \<Rightarrow> string" where
  "getClientQueryKey clientID q = hash q @ ''-'' @ clientID"

definition zeroChangeListenerFactory ::
  "('v, 'rc, 's) lib \<Rightarrow> changeFactorySubscriptions
     \<Rightarrow> 's query \<Rightarrow> 's input \<Rightarrow> format \<Rightarrow> thunk \<Rightarrow> queryComplete
     \<Rightarrow> ('v, 'rc, 's) changeListenerFactory \<times> 'v event list" where
  "zeroChangeListenerFactory L opts =
     (\<lambda>qry inp fmt onDestr qc. ChangeListenerFactory L inp (Some fmt) (Some onDestr) qc opts)"

definition materialize ::
  "'s query
     \<Rightarrow> ('s query \<Rightarrow> 's input \<Rightarrow> format \<Rightarrow> thunk \<Rightarrow> queryComplete \<Rightarrow> 'a)
     \<Rightarrow> 'a" where
  "materialize q factory = factory q (q_input q) (q_format q) (q_onDestroy q) (q_queryComplete q)"

text \<open>
  What \<open>zeroQueryAtom\<close> returns: the atom, the query key, and the \<open>cleanup\<close> closure,
  which captured \<open>subscriptions.key\<close>. \<open>materializedFactoryView\<close> is the view that the
  getter of the atom captured.
\<close>

record zeroQueryAtomResult =
  stateAtom :: nat
  queryKey :: string
  cleanup_subscriptionKey :: string
  materializedFactoryView :: nat

text \<open>
  The module's state. Views are objects shared between \<open>viewsMaterialized\<close> and the
  closures of the atoms, so they live in a store and are named by references.
  \<open>memoize_cache\<close> is the cache of \<open>memoize(f, resolver)\<close> around \<open>zeroQueryAtom\<close>.
\<close>

record ('v, 'rc, 's) world =
  heap :: "nat \<Rightarrow> ('v, 'rc, 's) changeListenerFactory option"
  nextRef :: nat
  viewsMaterialized :: "(string \<times> nat) list"
  memoize_cache :: "(string \<times> zeroQueryAtomResult) list"
  nextAtom :: nat

definition emptyWorld :: "('v, 'rc, 's) world" where
  "emptyWorld = \<lparr>heap = (\<lambda>r. None), nextRef = 0, viewsMaterialized = [],
                  memoize_cache = [], nextAtom = 0\<rparr>"

text \<open>
  \<open>getMaterializedFactoryView\<close> returns the reference of the view. A reference of
  \<open>viewsMaterialized\<close> that the store does not hold cannot arise; the model leaves the
  state as it is there.
\<close>

definition getMaterializedFactoryView ::
  "('v, 'rc, 's) lib \<Rightarrow> string \<Rightarrow> 's query \<Rightarrow> changeFactorySubscriptions
     \<Rightarrow> ('v, 'rc, 's) world \<Rightarrow> nat \<times> ('v, 'rc, 's) world \<times> 'v event list" where
  "getMaterializedFactoryView L clientID q subs w =
     (let k = getClientQueryKey clientID q in
      case map_of (viewsMaterialized w) k of
        Some r \<Rightarrow>
          (case heap w r of
             Some view \<Rightarrow> (r, w\<lparr>heap := (heap w)(r \<mapsto> addSubscriptions subs view)\<rparr>, [])
           | None \<Rightarrow> (r, w, []))
      | None \<Rightarrow>
          (let (view, evs) = materialize q (zeroChangeListenerFactory L subs);
               r = nextRef w
           in (r,
               w\<lparr>heap := (heap w)(r \<mapsto> view), nextRef := r + 1,
                 viewsMaterialized := AList.update k r (viewsMaterialized w)\<rparr>,
               evs)))"

text \<open>
  \<open>cleanupMaterializedFactoryView\<close> returns the state, the trace and the error that
  leaves it, if any: when \<open>destroy\<close> throws, the \<open>delete\<close> after it does not run.
\<close>

definition cleanupMaterializedFactoryView ::
  "string \<Rightarrow> string \<Rightarrow> ('v, 'rc, 's) world
     \<Rightarrow> ('v, 'rc, 's) world \<times> 'v event list \<times> thrown option" where
  "cleanupMaterializedFactoryView qKey subscriptionKey w =
     (case map_of (viewsMaterialized w) qKey of
        None \<Rightarrow> (w, [], None)
      | Some r \<Rightarrow>
          (case heap w r of
             None \<Rightarrow> (w, [], None)
           | Some view \<Rightarrow>
               (let v1 = removeSubscriptions subscriptionKey view;
                    w1 = w\<lparr>heap := (heap w)(r \<mapsto> v1)\<rparr>
                in if hasSubscribers v1 then (w1, [], None)
                   else
                     (let (v2, evs, err) = destroy v1;
                          w2 = w1\<lparr>heap := (heap w1)(r \<mapsto> v2)\<rparr>
                      in case err of
                           Some e \<Rightarrow> (w2, evs, Some e)
                         | None \<Rightarrow>
                             (w2\<lparr>viewsMaterialized := AList.delete qKey (viewsMaterialized w2)\<rparr>,
                              evs, None)))))"

text \<open>
  \<open>zeroQueryAtom\<close>: \<open>memoize\<close> with the resolver \<open>getClientQueryKey(query)\<close>. The body
  runs only when the cache has no entry under the key. \<open>syncOnData\<close> defaults to true.
\<close>

definition zeroQueryAtom ::
  "('v, 'rc, 's) lib \<Rightarrow> string \<Rightarrow> 's query \<Rightarrow> changeFactorySubscriptions \<Rightarrow> nat
     \<Rightarrow> bool option \<Rightarrow> ('v, 'rc, 's) world
     \<Rightarrow> zeroQueryAtomResult \<times> ('v, 'rc, 's) world \<times> 'v event list" where
  "zeroQueryAtom L clientID q subs store syncOnData w =
     (let k = getClientQueryKey clientID q in
      case map_of (memoize_cache w) k of
        Some res \<Rightarrow> (res, w, [])
      | None \<Rightarrow>
          (let a = nextAtom w;
               sync = (case syncOnData of None \<Rightarrow> True | Some b \<Rightarrow> b);
               (r, w1, evs) =
                 getMaterializedFactoryView L clientID q
                   (subs\<lparr>onData := Some (AtomSync store a sync)\<rparr>) (w\<lparr>nextAtom := a + 1\<rparr>);
               res = \<lparr>stateAtom = a, queryKey = getClientQueryKey clientID q,
                      cleanup_subscriptionKey = key subs, materializedFactoryView = r\<rparr>
           in (res, w1\<lparr>memoize_cache := AList.update k res (memoize_cache w1)\<rparr>, evs)))"

definition cleanup ::
  "zeroQueryAtomResult \<Rightarrow> string \<Rightarrow> ('v, 'rc, 's) world
     \<Rightarrow> ('v, 'rc, 's) world \<times> 'v event list \<times> thrown option" where
  "cleanup res qKey w = cleanupMaterializedFactoryView qKey (cleanup_subscriptionKey res) w"

text \<open>
  The getter of \<open>stateAtom\<close>, on the view its closure holds (\<open>None\<close>: no view yet).
  \<open>structuredClone\<close> copies a value and is the identity here.
\<close>

definition stateAtom_get ::
  "('v, 'rc, 's) changeListenerFactory option \<Rightarrow> 'v result \<times> resultType" where
  "stateAtom_get view =
     (case view of
        None \<Rightarrow> (RList [], Unknown)
      | Some v \<Rightarrow> ((case data v of RUndefined \<Rightarrow> RList [] | d \<Rightarrow> d), status v))"

section \<open>The hook\<close>

text \<open>
  What React keeps for one component that calls \<open>useZeroQueryAtom\<close>: the ref
  \<open>previousQueryKey\<close> and the dependency \<open>[queryKey]\<close> of the effect at the last render.
  A render of a component that is not mounted yet (\<open>None\<close>) creates the ref with the
  query key and runs the effect once. A later render runs the effect only when the
  dependency changed. The effect returns no function, so React has nothing of this hook to
  run when the component unmounts. The result holds the error that leaves the effect, if any.
\<close>

record component =
  previousQueryKey :: string
  deps :: string

definition effect ::
  "zeroQueryAtomResult \<Rightarrow> component \<Rightarrow> ('v, 'rc, 's) world
     \<Rightarrow> component \<times> ('v, 'rc, 's) world \<times> 'v event list \<times> thrown option" where
  "effect res c w =
     (if previousQueryKey c \<noteq> queryKey res then
        (let (w1, evs, err) = cleanup res (previousQueryKey c) w in
         case err of
           Some e \<Rightarrow> (c, w1, evs, Some e)
         | None \<Rightarrow> (c\<lparr>previousQueryKey := queryKey res\<rparr>, w1, evs, None))
      else (c, w, [], None))"

definition useZeroQueryAtom ::
  "('v, 'rc, 's) lib \<Rightarrow> string \<Rightarrow> nat \<Rightarrow> component option \<Rightarrow> 's query
     \<Rightarrow> changeFactorySubscriptions \<Rightarrow> ('v, 'rc, 's) world
     \<Rightarrow> component \<times> ('v, 'rc, 's) world \<times> 'v event list \<times> thrown option" where
  "useZeroQueryAtom L clientID store mounted q subs w =
     (let (res, w1, evs) = zeroQueryAtom L clientID q subs store None w in
      case mounted of
        None \<Rightarrow>
          (let (c1, w2, evs2, err) =
                 effect res \<lparr>previousQueryKey = queryKey res, deps = queryKey res\<rparr> w1
           in (c1, w2, evs @ evs2, err))
      | Some c \<Rightarrow>
          if deps c \<noteq> queryKey res then
            (let (c1, w2, evs2, err) = effect res (c\<lparr>deps := queryKey res\<rparr>) w1
             in (c1, w2, evs @ evs2, err))
          else (c, w1, evs, None))"

definition unmount ::
  "component \<Rightarrow> ('v, 'rc, 's) world \<Rightarrow> ('v, 'rc, 's) world \<times> 'v event list" where
  "unmount c w = (w, [])"

section \<open>Notions used to state the properties\<close>

text \<open>The callback that belongs to an operation, and its property name.\<close>

fun callbackKind :: "changeOperation \<Rightarrow> functionKey" where
  "callbackKind OpAdd = OnAdd"
| "callbackKind OpRemove = OnRemove"
| "callbackKind OpEdit = OnUpdate"

fun callbackOf :: "changeFactorySubscriptions \<Rightarrow> changeOperation \<Rightarrow> callback option" where
  "callbackOf callbacks OpAdd = onAdd callbacks"
| "callbackOf callbacks OpRemove = onRemove callbacks"
| "callbackOf callbacks OpEdit = onUpdate callbacks"

text \<open>
  One call, with the row \<open>d\<close>, of the callback that belongs to the operation \<open>t\<close>, for
  every subscription that has it.
\<close>

definition dispatch ::
  "(string \<times> changeFactorySubscriptions) list \<Rightarrow> changeOperation \<Rightarrow> row \<Rightarrow> 'v event list" where
  "dispatch subs t d =
     concat (map (\<lambda>(k, callbacks).
        case callbackOf callbacks t of
          None \<Rightarrow> []
        | Some f \<Rightarrow> [RowCalled k (callbackKind t) f d]) subs)"

fun isRowCalled :: "'v event \<Rightarrow> bool" where
  "isRowCalled (RowCalled k name f d) = True"
| "isRowCalled e = False"

text \<open>
  The node id of a row, in words: the row's \<open>id\<close> when it is truthy, otherwise its
  \<open>ID\<close> when that is truthy, turned into a string; for a row that has neither, the
  JSON text of the whole row.
\<close>

definition rowId :: "row \<Rightarrow> jsval option" where
  "rowId r =
     (if truthy (property r ''id'') then Some (property r ''id'')
      else if truthy (property r ''ID'') then Some (property r ''ID'')
      else None)"

definition nodeIdOf :: "('v, 'rc, 's) lib \<Rightarrow> row \<Rightarrow> string" where
  "nodeIdOf L r = (case rowId r of Some x \<Rightarrow> js_String L x | None \<Rightarrow> JSON_stringify L r)"



text \<open>
  The event loop around a view: each change arrives at a time; timers that are due run
  before the change is pushed.
\<close>

fun run ::
  "('v, 'rc, 's) lib \<Rightarrow> (nat \<times> change) list \<Rightarrow> ('v, 'rc, 's) changeListenerFactory
     \<Rightarrow> ('v, 'rc, 's) changeListenerFactory \<times> 'v event list" where
  "run L [] v = (v, [])"
| "run L ((now, c) # cs) v =
     (let (v0, e0) = runTimers now v;
          (v1, e1) = push L now c v0;
          (v2, e2) = run L cs v1
      in (v2, e0 @ e1 @ e2))"

text \<open>
  The same loop with exceptions. Each timer and each push is a call of its own, so an
  exception ends that call only; the loop collects what was thrown.
\<close>

fun thrownList :: "thrown option \<Rightarrow> thrown list" where
  "thrownList None = []"
| "thrownList (Some x) = [x]"

fun try_run ::
  "('v, 'rc, 's) lib \<Rightarrow> ('v, 'rc, 's) faults \<Rightarrow> (nat \<times> change) list
     \<Rightarrow> ('v, 'rc, 's) changeListenerFactory
     \<Rightarrow> ('v, 'rc, 's) changeListenerFactory \<times> 'v event list \<times> thrown list" where
  "try_run L T [] v = (v, [], [])"
| "try_run L T ((now, c) # cs) v =
     (let (v0, e0, r0) = try_runTimers T now v;
          (v1, e1, r1) = try_push L T now c v0;
          (v2, e2, rs) = try_run L T cs v1
      in (v2, e0 @ e1 @ e2, thrownList r0 @ thrownList r1 @ rs))"





text \<open>The state that \<open>add\<close> changes for the fetched nodes build from the empty result.\<close>

definition initialResult :: "format \<Rightarrow> 'v result" where
  "initialResult f = (if singular f then RUndefined else RList [])"

definition addAll ::
  "('v, 'rc, 's) lib \<Rightarrow> 's \<Rightarrow> format \<Rightarrow> 'v result \<times> 'rc \<Rightarrow> node list \<Rightarrow> 'v result \<times> 'rc" where
  "addAll L schema f start ns =
     foldl (\<lambda>(e, rc) n. zero_applyChange L e (AddChange n) schema f rc) start ns"

text \<open>An error that \<open>destroy\<close> does not let through.\<close>

fun swallowed :: "thunk \<Rightarrow> bool" where
  "swallowed Returns = True"
| "swallowed (Throws (Error message)) = js_includes message ''Connection not found''"
| "swallowed (Throws (NonError x)) = False"

text \<open>
  Callers of one query: a caller asks for the view with its subscriptions, or cleans up
  under its key.
\<close>

datatype action = Subscribe changeFactorySubscriptions | Cleanup string

fun act ::
  "('v, 'rc, 's) lib \<Rightarrow> string \<Rightarrow> 's query \<Rightarrow> action \<Rightarrow> ('v, 'rc, 's) world
     \<Rightarrow> ('v, 'rc, 's) world \<times> 'v event list \<times> thrown option" where
  "act L clientID q (Subscribe subs) w =
     (let (r, w1, evs) = getMaterializedFactoryView L clientID q subs w in (w1, evs, None))"
| "act L clientID q (Cleanup k) w =
     cleanupMaterializedFactoryView (getClientQueryKey clientID q) k w"

fun acts ::
  "('v, 'rc, 's) lib \<Rightarrow> string \<Rightarrow> 's query \<Rightarrow> action list \<Rightarrow> ('v, 'rc, 's) world
     \<Rightarrow> ('v, 'rc, 's) world" where
  "acts L clientID q [] w = w"
| "acts L clientID q (a # as) w = acts L clientID q as (fst (act L clientID q a w))"

text \<open>The subscription keys that remain registered after the actions.\<close>

fun registered :: "string set \<Rightarrow> action list \<Rightarrow> string set" where
  "registered S [] = S"
| "registered S (Subscribe subs # as) = registered (insert (key subs) S) as"
| "registered S (Cleanup k # as) = registered (S - {k}) as"

text \<open>
  The cache tracks the set \<open>S\<close> of keys for the query: with no key there is no view
  under the query key; otherwise the view is there and its subscriptions are under
  exactly the keys of \<open>S\<close>.
\<close>

definition tracks :: "string \<Rightarrow> 's query \<Rightarrow> ('v, 'rc, 's) world \<Rightarrow> string set \<Rightarrow> bool" where
  "tracks clientID q w S =
     (case map_of (viewsMaterialized w) (getClientQueryKey clientID q) of
        None \<Rightarrow> S = {}
      | Some r \<Rightarrow>
          (case heap w r of
             None \<Rightarrow> False
           | Some view \<Rightarrow>
               S \<noteq> {} \<and> set (map fst (subscriptions view)) = S
               \<and> onDestroy view = q_onDestroy q))"


section \<open>A small engine for concrete runs\<close>

text \<open>
  A stand-in for the engine and the built-ins, on which the model is run at concrete
  inputs. \<open>add\<close> appends the row (or sets the single row), \<open>remove\<close> takes it out,
  \<open>edit\<close> puts the new row in the place of the old one, a \<open>child\<close> change leaves
  the root rows as they are. \<open>String\<close> gives a string as it is and a number in
  decimal; \<open>JSON.stringify\<close> writes the properties in order and leaves out the
  undefined ones (strings are quoted without escapes, which the example rows do not need).
\<close>

fun decimal :: "nat \<Rightarrow> string" where
  "decimal n =
     (if n < 10 then [''0123456789'' ! n]
      else decimal (n div 10) @ [''0123456789'' ! (n mod 10)])"

declare decimal.simps [simp del]

fun example_String :: "jsval \<Rightarrow> string" where
  "example_String JUndefined = ''undefined''"
| "example_String JNull = ''null''"
| "example_String (JBool b) = (if b then ''true'' else ''false'')"
| "example_String (JNum n) = (if n < 0 then ''-'' @ decimal (nat (- n)) else decimal (nat n))"
| "example_String (JStr s) = s"

fun example_JSON_value :: "jsval \<Rightarrow> string" where
  "example_JSON_value (JStr s) = [CHR 0x22] @ s @ [CHR 0x22]"
| "example_JSON_value x = example_String x"

fun example_JSON_properties :: "row \<Rightarrow> string list" where
  "example_JSON_properties [] = []"
| "example_JSON_properties ((k, x) # r) =
     (if x = JUndefined then example_JSON_properties r
      else ([CHR 0x22] @ k @ [CHR 0x22] @ '':'' @ example_JSON_value x)
             # example_JSON_properties r)"

fun commaSeparated :: "string list \<Rightarrow> string" where
  "commaSeparated [] = []"
| "commaSeparated [s] = s"
| "commaSeparated (s # t # ss) = s @ '','' @ commaSeparated (t # ss)"

definition example_JSON_stringify :: "row \<Rightarrow> string" where
  "example_JSON_stringify r = ''{'' @ commaSeparated (example_JSON_properties r) @ ''}''"

definition exampleLib :: "(row, unit, unit) lib" where
  "exampleLib =
     \<lparr>zero_applyChange = (\<lambda>e c s f rc.
          (case c of
             AddChange n \<Rightarrow> (case e of RList xs \<Rightarrow> RList (xs @ [row n]) | _ \<Rightarrow> ROne (row n))
           | RemoveChange n \<Rightarrow>
               (case e of RList xs \<Rightarrow> RList (removeAll (row n) xs) | _ \<Rightarrow> RUndefined)
           | EditChange n old \<Rightarrow>
               (case e of
                  RList xs \<Rightarrow> RList (map (\<lambda>r. if r = row old then row n else r) xs)
                | ROne x \<Rightarrow> ROne (row n)
                | RUndefined \<Rightarrow> RUndefined)
           | ChildChange n rel ch \<Rightarrow> e, rc)),
      newWeakMap = (),
      js_String = example_String,
      JSON_stringify = example_JSON_stringify\<rparr>"

text \<open>
  What throws in the examples. The engine throws on a \<open>remove\<close> or an \<open>edit\<close> of a
  row that the result does not hold. The \<open>onData\<close> closure of \<open>zeroQueryAtom\<close> with
  \<open>syncOnData\<close> calls \<open>store.set(stateAtom, ...)\<close>, whose write function sets
  \<open>stateAtom\<close> itself; the store refuses that for an atom made from a read function, and
  the call throws. The callbacks of the user return.
\<close>

fun holdsRow :: "row \<Rightarrow> row result \<Rightarrow> bool" where
  "holdsRow r RUndefined = False"
| "holdsRow r (RList xs) = (r \<in> set xs)"
| "holdsRow r (ROne x) = (x = r)"

fun example_engineThrows :: "row result \<Rightarrow> change \<Rightarrow> thrown option" where
  "example_engineThrows e (RemoveChange n) =
     (if holdsRow (row n) e then None else Some (Error ''node does not exist''))"
| "example_engineThrows e (EditChange n old) =
     (if holdsRow (row old) e then None else Some (Error ''node does not exist''))"
| "example_engineThrows e c = None"

fun example_callThrows :: "row event \<Rightarrow> thrown option" where
  "example_callThrows (OnDataCalled k (AtomSync store a True) d st) =
     Some (Error ''atom not writable'')"
| "example_callThrows e = None"

definition exampleFaults :: "(row, unit, unit) faults" where
  "exampleFaults =
     \<lparr>engineThrows = (\<lambda>e c s f rc. example_engineThrows e c),
      callThrows = example_callThrows\<rparr>"

definition exampleInput :: "node list \<Rightarrow> unit input" where
  "exampleInput ns = \<lparr>fetch = ns, getSchema = ()\<rparr>"

definition exampleQuery :: "string \<Rightarrow> thunk \<Rightarrow> unit query" where
  "exampleQuery h t =
     \<lparr>hash = h, q_input = exampleInput [], q_format = defaultFormat, q_onDestroy = t,
      q_queryComplete = LiteralTrue\<rparr>"

definition subscriber :: "string \<Rightarrow> nat \<Rightarrow> changeFactorySubscriptions" where
  "subscriber k n =
     \<lparr>key = k, onData = Some (UserFn n), onAdd = Some (UserFn (n + 1)),
      onRemove = Some (UserFn (n + 2)), onUpdate = Some (UserFn (n + 3))\<rparr>"

definition exampleView :: "thunk \<Rightarrow> (row, unit, unit) changeListenerFactory" where
  "exampleView t =
     fst (ChangeListenerFactory exampleLib (exampleInput []) None (Some t) LiteralTrue
            (subscriber ''a'' 0))"

text \<open>
  Rows, and the changes that follow a first \<open>add\<close> of row 1 at time 0: two edits of
  row 1 and an \<open>add\<close> of row 2, each less than 100 ms after the one before. The second
  sequence edits twice a row whose \<open>id\<close> is the number 0.
\<close>

definition exampleRow :: "string \<Rightarrow> int \<Rightarrow> row" where
  "exampleRow i n = [(''id'', JStr i), (''n'', JNum n)]"

definition exampleChanges :: "(nat \<times> change) list" where
  "exampleChanges =
     [(50, EditChange (Node (exampleRow ''1'' 2)) (Node (exampleRow ''1'' 1))),
      (120, EditChange (Node (exampleRow ''1'' 3)) (Node (exampleRow ''1'' 2))),
      (200, AddChange (Node (exampleRow ''2'' 7)))]"

definition zeroRow :: "int \<Rightarrow> row" where
  "zeroRow n = [(''id'', JNum 0), (''n'', JNum n)]"

definition zeroChanges :: "(nat \<times> change) list" where
  "zeroChanges =
     [(0, AddChange (Node (zeroRow 1))),
      (50, EditChange (Node (zeroRow 2)) (Node (zeroRow 1))),
      (100, EditChange (Node (zeroRow 3)) (Node (zeroRow 2)))]"

text \<open>
  The first run: the \<open>add\<close> of row 1 at time 0 and the changes after it pushed to a
  fresh view, the timer at time 300, then one more edit at time 400 and the timer at
  time 500. The second run pushes the changes of the row with \<open>id\<close> 0; its timer is
  due at time 200.
\<close>

definition exampleRun ::
  "(row, unit, unit) changeListenerFactory \<times> row event list \<times> thrown list" where
  "exampleRun =
     try_run exampleLib exampleFaults ((0, AddChange (Node (exampleRow ''1'' 1))) # exampleChanges)
       (exampleView Returns)"

definition exampleFire ::
  "(row, unit, unit) changeListenerFactory \<times> row event list \<times> thrown option" where
  "exampleFire = try_runTimers exampleFaults 300 (fst exampleRun)"

definition exampleSecondFire ::
  "(row, unit, unit) changeListenerFactory \<times> row event list \<times> thrown option" where
  "exampleSecondFire =
     try_runTimers exampleFaults 500
       (fst (try_run exampleLib exampleFaults
               [(400, EditChange (Node (exampleRow ''1'' 4)) (Node (exampleRow ''1'' 3)))]
               (fst exampleFire)))"


definition exampleActions :: "action list" where
  "exampleActions =
     [Subscribe (subscriber ''a'' 0), Subscribe (subscriber ''b'' 10), Cleanup ''a'']"

section \<open>Debounce keys\<close>

lemma opName_no_dash: "CHR ''-'' \<notin> set (opName t)"
  by (cases t) simp_all

lemma decript_create: "decriptDebounceKey (createDebounceKey t nodeId) = opName t"
  using opName_no_dash [of t]
  by (simp add: decriptDebounceKey_def createDebounceKey_def takeWhile_append)

lemma typeToFunctionKey_opName: "typeToFunctionKey (opName t) = Some (callbackKind t)"
  by (cases t) (simp_all add: typeToFunctionKey_def)

lemma callbackAt_kind:
  "callbackAt callbacks (Some (callbackKind t))
     = map_option (Pair (callbackKind t)) (callbackOf callbacks t)"
  by (cases t) simp_all

lemma entry_calls_create:
  "entry_calls subs (createDebounceKey t nodeId, d) = dispatch subs t d"
  by (induction subs)
    (auto simp: entry_calls_def dispatch_def decript_create typeToFunctionKey_opName
      callbackAt_kind Let_def split: option.split)

text \<open>
  C10. For each of the operations \<open>add\<close>, \<open>remove\<close>, \<open>edit\<close> and every node id,
  decoding the key made by \<open>createDebounceKey\<close> gives the name of the operation again,
  the name is mapped to the callback kind of that operation, and \<open>#handleConsolidated\<close>
  on a queue of such keys calls, for every entry, the callback that belongs to the
  operation the entry was made from, in every subscription that has it.
\<close>

theorem debounce_key_decodes:
  "decriptDebounceKey (createDebounceKey t nodeId) = opName t
   \<and> typeToFunctionKey (decriptDebounceKey (createDebounceKey t nodeId)) = Some (callbackKind t)
   \<and> snd (handleConsolidated
        (v\<lparr>consolidatedCallbacks := map (\<lambda>(t, nodeId, d). (createDebounceKey t nodeId, d)) xs\<rparr>))
      = concat (map (\<lambda>(t, nodeId, d). dispatch (subscriptions v) t d) xs)"
  by (simp add: decript_create typeToFunctionKey_opName handleConsolidated_def
      comp_def case_prod_unfold entry_calls_create)

section \<open>Pushing a change\<close>

lemma onData_list_no_row:
  "filter isRowCalled
     (concat (map (\<lambda>(k, callbacks).
        case onData callbacks of
          None \<Rightarrow> []
        | Some f \<Rightarrow> [OnDataCalled k f d st]) subs)) = []"
  by (induction subs) (auto split: option.split)

lemma onData_calls_no_row: "filter isRowCalled (onData_calls v) = []"
  by (simp add: onData_calls_def onData_list_no_row)

lemma push_events: "snd (push L now c v) = onData_calls (fst (applyChange L c v))"
  by (simp add: push_def applyChange_def Let_def case_prod_unfold split: option.split)

lemma applyChange_calls:
  "snd (applyChange L c v)
     = concat (map (\<lambda>(k, callbacks).
         case onData callbacks of
           None \<Rightarrow> []
         | Some f \<Rightarrow>
             [OnDataCalled k f
                (fst (zero_applyChange L (state_0 v) c (getSchema (input v)) (format v)
                       (refCountMap v)))
                (state_1 v)]) (subscriptions v))"
  by (simp add: onData_calls_def applyChange_def data_def status_def case_prod_unfold Let_def
      cong: option.case_cong)

lemma try_push_child_schedules_nothing:
  "consolidatedCallbacks (fst (try_push L T now (ChildChange n rel c) v)) = consolidatedCallbacks v
   \<and> timer (fst (try_push L T now (ChildChange n rel c) v)) = timer v"
  by (simp add: try_push_def try_applyChange_def applyChange_def Let_def case_prod_unfold
      split: option.split)

text \<open>
  C8. Pushing a \<open>child\<close> change is applying it. The state is what the engine makes of
  the change. The calls made are one call of \<open>onData\<close>, with the new data and the
  status, for every subscription that has an \<open>onData\<close>, in the order of the
  subscriptions, and no call of \<open>onAdd\<close>, \<open>onRemove\<close> or \<open>onUpdate\<close>. The queue of
  the debounced callbacks and the timer are left as they were, so nothing is scheduled for
  the change; that also holds when the engine or an \<open>onData\<close> throws.
\<close>

theorem child_change_not_consolidated:
  "push L now (ChildChange n rel c) v = applyChange L (ChildChange n rel c) v
   \<and> state_0 (fst (push L now (ChildChange n rel c) v))
       = fst (zero_applyChange L (state_0 v) (ChildChange n rel c) (getSchema (input v))
               (format v) (refCountMap v))
   \<and> snd (push L now (ChildChange n rel c) v)
       = concat (map (\<lambda>(k, callbacks).
           case onData callbacks of
             None \<Rightarrow> []
           | Some f \<Rightarrow>
               [OnDataCalled k f
                  (fst (zero_applyChange L (state_0 v) (ChildChange n rel c)
                         (getSchema (input v)) (format v) (refCountMap v)))
                  (state_1 v)]) (subscriptions v))
   \<and> filter isRowCalled (snd (push L now (ChildChange n rel c) v)) = []
   \<and> consolidatedCallbacks (fst (push L now (ChildChange n rel c) v)) = consolidatedCallbacks v
   \<and> timer (fst (push L now (ChildChange n rel c) v)) = timer v
   \<and> subscriptions (fst (push L now (ChildChange n rel c) v)) = subscriptions v
   \<and> consolidatedCallbacks (fst (try_push L T now (ChildChange n rel c) v))
       = consolidatedCallbacks v
   \<and> timer (fst (try_push L T now (ChildChange n rel c) v)) = timer v"
proof -
  have same: "push L now (ChildChange n rel c) v = applyChange L (ChildChange n rel c) v"
    by (simp add: push_def Let_def case_prod_unfold)
  have fields: "state_0 (fst (applyChange L (ChildChange n rel c) v))
        = fst (zero_applyChange L (state_0 v) (ChildChange n rel c) (getSchema (input v))
                (format v) (refCountMap v))"
      "consolidatedCallbacks (fst (applyChange L (ChildChange n rel c) v)) = consolidatedCallbacks v"
      "timer (fst (applyChange L (ChildChange n rel c) v)) = timer v"
      "subscriptions (fst (applyChange L (ChildChange n rel c) v)) = subscriptions v"
    by (simp_all add: applyChange_def Let_def case_prod_unfold)
  have silent: "filter isRowCalled (snd (applyChange L (ChildChange n rel c) v)) = []"
    by (simp add: applyChange_def Let_def case_prod_unfold onData_calls_no_row)
  show ?thesis
    unfolding same
    using fields silent applyChange_calls [of L "ChildChange n rel c" v]
      try_push_child_schedules_nothing [of L T now n rel c v]
    by simp
qed

text \<open>
  C7, as the claim states it, fails: \<open>onData\<close> is called while the change is pushed.
  A view with one subscription gets an \<open>add\<close> change; the trace of \<open>push\<close> itself holds
  the call of \<open>onData\<close> with the new data.
\<close>

theorem onData_synchronous_counterexample:
  "snd (push exampleLib 0 (AddChange (Node [(''id'', JStr ''1'')])) (exampleView Returns))
     = [OnDataCalled ''a'' (UserFn 0) (RList [[(''id'', JStr ''1'')]]) Complete]"
  by (simp add: push_def applyChange_def onData_calls_def exampleView_def exampleLib_def
      ChangeListenerFactory_def exampleInput_def subscriber_def defaultFormat_def data_def
      status_def Let_def)

text \<open>
  C7, amended. The calls that \<open>push\<close> makes before it returns are those of \<open>#onData\<close>
  on the updated state: one call of \<open>onData\<close>, with the new data and the status, for
  every subscription that has it. No \<open>onAdd\<close>, \<open>onRemove\<close> or \<open>onUpdate\<close> is
  called by \<open>push\<close>; those are left to the debounced function.
\<close>

theorem push_calls_onData_only:
  "snd (push L now c v) = onData_calls (fst (applyChange L c v))
   \<and> filter isRowCalled (snd (push L now c v)) = []
   \<and> onData_calls (fst (applyChange L c v))
       = concat (map (\<lambda>(k, callbacks).
           case onData callbacks of
             None \<Rightarrow> []
           | Some f \<Rightarrow>
               [OnDataCalled k f
                  (fst (zero_applyChange L (state_0 v) c (getSchema (input v)) (format v)
                         (refCountMap v)))
                  (state_1 v)]) (subscriptions v))"
  by (simp add: push_events onData_calls_no_row)
    (simp add: onData_calls_def applyChange_def data_def status_def case_prod_unfold Let_def
      cong: option.case_cong)

section \<open>The constructed view\<close>

lemma fetchLoop_fst:
  "fst (fetchLoop L ns v)
     = v\<lparr>state_0 := fst (addAll L (getSchema (input v)) (format v) (state_0 v, refCountMap v) ns),
         refCountMap := snd (addAll L (getSchema (input v)) (format v) (state_0 v, refCountMap v) ns)\<rparr>"
proof (induction ns arbitrary: v)
  case Nil
  show ?case by (simp add: addAll_def)
next
  case (Cons n ns)
  show ?case
    by (simp add: Cons.IH applyChange_def addAll_def case_prod_unfold Let_def)
qed

text \<open>
  C9. Right after the constructor, the status is \<open>complete\<close> when \<open>queryComplete\<close> is
  the literal \<open>true\<close> and \<open>unknown\<close> when it is a promise, and it is \<open>complete\<close> once
  the promise has resolved. The data is what \<open>add\<close> changes for the fetched nodes, in
  order, make of the empty result, which is \<open>[]\<close> for a format that is not singular and
  \<open>undefined\<close> for a singular one. The getter of the atom gives \<open>[[], unknown]\<close> when
  there is no view.
\<close>

theorem constructed_view:
  "status (fst (ChangeListenerFactory L inp fmt od LiteralTrue subs)) = Complete
   \<and> status (fst (ChangeListenerFactory L inp fmt od PromiseTrue subs)) = Unknown
   \<and> status (queryCompleteResolved (fst (ChangeListenerFactory L inp fmt od PromiseTrue subs)))
       = Complete
   \<and> data (fst (ChangeListenerFactory L inp fmt od qc subs))
       = fst (addAll L (getSchema inp) (case fmt of None \<Rightarrow> defaultFormat | Some f \<Rightarrow> f)
               (initialResult (case fmt of None \<Rightarrow> defaultFormat | Some f \<Rightarrow> f), newWeakMap L)
               (fetch inp))
   \<and> initialResult (Format False rels) = (RList [] :: 'v result)
   \<and> initialResult (Format True rels) = (RUndefined :: 'v result)
   \<and> stateAtom_get (None :: ('v, 'rc, 's) changeListenerFactory option) = (RList [], Unknown)"
  by (simp add: ChangeListenerFactory_def status_def data_def queryCompleteResolved_def
      case_prod_unfold Let_def fetchLoop_fst initialResult_def stateAtom_get_def)

section \<open>Teardown\<close>

lemma startsWith_iff: "startsWith m s \<longleftrightarrow> (\<exists>q. m = s @ q)"
  by (induction m s rule: startsWith.induct) auto

lemma js_includes_iff: "js_includes m s \<longleftrightarrow> (\<exists>p q. m = p @ s @ q)"
proof (induction m)
  case Nil
  show ?case by (simp add: startsWith_iff)
next
  case (Cons d ds)
  show ?case
  proof
    assume "js_includes (d # ds) s"
    then consider "startsWith (d # ds) s" | "js_includes ds s" by auto
    then show "\<exists>p q. d # ds = p @ s @ q"
    proof cases
      case 1
      then obtain q where "d # ds = [] @ s @ q" by (auto simp: startsWith_iff)
      then show ?thesis by blast
    next
      case 2
      then obtain p q where "ds = p @ s @ q" using Cons.IH by blast
      then have "d # ds = (d # p) @ s @ q" by simp
      then show ?thesis by blast
    qed
  next
    assume "\<exists>p q. d # ds = p @ s @ q"
    then obtain p q where pq: "d # ds = p @ s @ q" by blast
    show "js_includes (d # ds) s"
    proof (cases p)
      case Nil
      then have "startsWith (d # ds) s" using pq by (simp add: startsWith_iff)
      then show ?thesis by simp
    next
      case (Cons a p')
      then have "ds = p' @ s @ q" using pq by simp
      then show ?thesis using Cons.IH by auto
    qed
  qed
qed

text \<open>
  C3, as the claim states it, fails: the test is for \<open>Connection not found\<close> with a
  capital C. An error of the teardown whose message is \<open>connection not found\<close>
  contains the claim's text and leaves \<open>destroy\<close> all the same.
\<close>

theorem destroy_lowercase_counterexample:
  "js_includes ''connection not found'' ''connection not found''
   \<and> snd (snd (destroy (exampleView (Throws (Error ''connection not found'')))))
       = Some (Error ''connection not found'')"
  by (simp add: destroy_def exampleView_def ChangeListenerFactory_def exampleInput_def Let_def)

text \<open>
  C3, amended. \<open>destroy\<close> returns normally exactly when the teardown returns or throws
  an \<open>Error\<close> whose message contains \<open>Connection not found\<close> (capital C, case
  sensitive); anything else the teardown throws leaves \<open>destroy\<close> as it was thrown. The
  subscriptions and the queue are cleared either way.
\<close>

theorem destroy_swallows_connection_not_found:
  "(snd (snd (destroy v)) = None)
     = (onDestroy v = Returns
        \<or> (\<exists>m p q. onDestroy v = Throws (Error m) \<and> m = p @ ''Connection not found'' @ q))
   \<and> (\<forall>e. snd (snd (destroy v)) = Some e \<longrightarrow> onDestroy v = Throws e)
   \<and> subscriptions (fst (destroy v)) = []
   \<and> consolidatedCallbacks (fst (destroy v)) = []"
  by (auto simp: destroy_def Let_def js_includes_iff split: thunk.splits thrown.splits)

theorem destroy_swallows_witness:
  "snd (snd (destroy (exampleView (Throws (Error ''boom''))))) = Some (Error ''boom'')
   \<and> onDestroy (exampleView (Throws (Error ''boom''))) = Throws (Error ''boom'')
   \<and> snd (snd (destroy (exampleView (Throws (Error ''Error: Connection not found: 7''))))) = None"
  using destroy_swallows_connection_not_found [of "exampleView (Throws (Error ''boom''))"]
  by (simp add: destroy_def exampleView_def ChangeListenerFactory_def exampleInput_def Let_def)

section \<open>Debounced delivery\<close>


lemma callsUntilThrow_normal:
  "snd (callsUntilThrow throws evs) = None \<Longrightarrow> callsUntilThrow throws evs = (evs, None)"
  by (induction evs) (auto simp: case_prod_unfold Let_def split: option.splits)

lemma try_push_normal:
  assumes "snd (snd (try_push L T now c v)) = None"
  shows "try_push L T now c v = (fst (push L now c v), snd (push L now c v), None)"
proof (cases "engineThrows T (state_0 v) c (getSchema (input v)) (format v) (refCountMap v)")
  case (Some x)
  then show ?thesis using assms by (simp add: try_push_def try_applyChange_def)
next
  case None
  have "snd (callsUntilThrow (callThrows T) (snd (applyChange L c v))) = None"
    using assms None
    by (simp add: try_push_def try_applyChange_def case_prod_unfold Let_def
        split: option.splits)
  from callsUntilThrow_normal [OF this] show ?thesis using None
    by (simp add: try_push_def try_applyChange_def push_def case_prod_unfold Let_def
        split: option.splits)
qed

lemma try_runTimers_normal:
  assumes "snd (snd (try_runTimers T now v)) = None"
  shows "try_runTimers T now v = (fst (runTimers now v), snd (runTimers now v), None)"
proof (cases "timer v")
  case None
  then show ?thesis by (simp add: try_runTimers_def runTimers_def)
next
  case (Some due)
  show ?thesis
  proof (cases "due \<le> now")
    case False
    then show ?thesis using Some by (simp add: try_runTimers_def runTimers_def)
  next
    case True
    let ?v0 = "v\<lparr>timer := None\<rparr>"
    have "snd (callsUntilThrow (callThrows T) (snd (handleConsolidated ?v0))) = None"
      using assms Some True
      by (simp add: try_runTimers_def try_handleConsolidated_def case_prod_unfold Let_def
          split: option.splits)
    from callsUntilThrow_normal [OF this] show ?thesis using Some True
      by (simp add: try_runTimers_def try_handleConsolidated_def runTimers_def
          case_prod_unfold Let_def)
  qed
qed

























lemmas view_defs =
  exampleView_def exampleLib_def exampleFaults_def ChangeListenerFactory_def exampleInput_def
  subscriber_def defaultFormat_def exampleRow_def exampleChanges_def zeroRow_def
  zeroChanges_def getNodeId_def nodeIdOf_def rowId_def property_def js_or_def
  example_JSON_stringify_def decimal.simps Let_def

lemmas step_defs =
  try_runTimers_def try_push_def try_applyChange_def try_handleConsolidated_def
  handleConsolidated_def applyChange_def onData_calls_def consolidateChanges_def
  entry_calls_def createDebounceKey_def decriptDebounceKey_def typeToFunctionKey_def
  data_def status_def

lemma exampleRun_value:
  "snd (snd exampleRun) = []
   \<and> consolidatedCallbacks (fst exampleRun)
       = [(''add-1'', exampleRow ''1'' 1), (''edit-1'', exampleRow ''1'' 3),
          (''add-2'', exampleRow ''2'' 7)]
   \<and> timer (fst exampleRun) = Some 300
   \<and> subscriptions (fst exampleRun) = [(''a'', subscriber ''a'' 0)]
   \<and> state_0 (fst exampleRun) = RList [exampleRow ''1'' 3, exampleRow ''2'' 7]"
  by (simp add: exampleRun_def view_defs step_defs)





text \<open>
  The run of the witness goes on: after the timer at time 300, row 1 is edited once more
  at time 400. The timer at time 500 calls \<open>onUpdate\<close> for that edit only.
\<close>

lemma exampleSecondFire_value:
  "fst (snd exampleSecondFire) = [RowCalled ''a'' OnUpdate (UserFn 3) (exampleRow ''1'' 4)]
   \<and> snd (snd exampleSecondFire) = None"
  using exampleRun_value
  by (simp add: exampleSecondFire_def exampleFire_def step_defs subscriber_def exampleRow_def
      exampleFaults_def exampleLib_def getNodeId_def property_def js_or_def Let_def)

text \<open>
  When the engine or an \<open>onData\<close> throws, \<open>push\<close> is left before the change is
  consolidated: the queue and the timer stay as they were. That is what happens on a view
  made by \<open>zeroQueryAtom\<close> with \<open>syncOnData\<close>, whose \<open>onData\<close> throws in the store.
\<close>

lemma try_push_aborted:
  assumes "snd (snd (try_push L T now c v)) \<noteq> None"
  shows "consolidatedCallbacks (fst (try_push L T now c v)) = consolidatedCallbacks v
    \<and> timer (fst (try_push L T now c v)) = timer v"
  using assms
  by (auto simp: try_push_def try_applyChange_def applyChange_def case_prod_unfold Let_def
      split: option.splits)

lemma try_push_on_hook_view:
  "(case zeroQueryAtom exampleLib ''c'' (exampleQuery ''h'' Returns) (subscriber ''a'' 0) 0 None
           emptyWorld of
      (res, w, evs) \<Rightarrow>
        (case heap w (materializedFactoryView res) of
           None \<Rightarrow> False
         | Some view \<Rightarrow>
             (case try_push exampleLib exampleFaults 0 (AddChange (Node (exampleRow ''1'' 1)))
                     view of
                (v1, made, err) \<Rightarrow>
                  made = [OnDataCalled ''a'' (AtomSync 0 0 True) (RList [exampleRow ''1'' 1])
                            Complete]
                  \<and> err = Some (Error ''atom not writable'')
                  \<and> consolidatedCallbacks v1 = [] \<and> timer v1 = None)))"
  by (simp add: zeroQueryAtom_def getMaterializedFactoryView_def materialize_def
      zeroChangeListenerFactory_def ChangeListenerFactory_def getClientQueryKey_def
      exampleQuery_def exampleInput_def exampleLib_def exampleFaults_def subscriber_def
      emptyWorld_def defaultFormat_def exampleRow_def step_defs Let_def)

text \<open>
  Likewise, when a callback throws in the timer, the queue is not cleared; and when the
  engine throws, \<open>push\<close> makes no call and changes nothing.
\<close>

lemma try_handleConsolidated_aborted:
  "snd (snd (try_handleConsolidated T v)) \<noteq> None \<Longrightarrow> fst (try_handleConsolidated T v) = v"
  by (auto simp: try_handleConsolidated_def case_prod_unfold Let_def split: option.splits)

lemma try_applyChange_engine_throws:
  "engineThrows T (state_0 v) c (getSchema (input v)) (format v) (refCountMap v) = Some x
     \<Longrightarrow> try_push L T now c v = (v, [], Some x)"
  by (simp add: try_push_def try_applyChange_def)

text \<open>
  An edit of a row that was never added: the engine throws, the timer set by the
  \<open>add\<close> before it is not moved, and it delivers that \<open>add\<close> before the next
  change is pushed.
\<close>

lemma edit_of_absent_row_throws:
  "try_run exampleLib exampleFaults
     [(0, AddChange (Node (exampleRow ''1'' 1))),
      (50, EditChange (Node (exampleRow ''2'' 3)) (Node (exampleRow ''2'' 0))),
      (120, AddChange (Node (exampleRow ''2'' 7)))]
     (exampleView Returns)
   = (fst (try_run exampleLib exampleFaults
             [(0, AddChange (Node (exampleRow ''1'' 1))),
              (50, EditChange (Node (exampleRow ''2'' 3)) (Node (exampleRow ''2'' 0))),
              (120, AddChange (Node (exampleRow ''2'' 7)))]
             (exampleView Returns)),
      [OnDataCalled ''a'' (UserFn 0) (RList [exampleRow ''1'' 1]) Complete,
       RowCalled ''a'' OnAdd (UserFn 1) (exampleRow ''1'' 1),
       OnDataCalled ''a'' (UserFn 0) (RList [exampleRow ''1'' 1, exampleRow ''2'' 7]) Complete],
      [Error ''node does not exist''])"
  by (simp add: view_defs step_defs prod_eq_iff)

text \<open>When nothing throws at all, every push and every timer of a run returns.\<close>

lemma callsUntilThrow_no_faults:
  "(\<And>e. throws e = None) \<Longrightarrow> callsUntilThrow throws evs = (evs, None)"
  by (induction evs) (simp_all add: case_prod_unfold Let_def)

lemma try_push_no_faults:
  assumes "\<And>e c s f rc. engineThrows T e c s f rc = None" and "\<And>e. callThrows T e = None"
  shows "try_push L T now c v = (fst (push L now c v), snd (push L now c v), None)"
  by (rule try_push_normal)
    (simp add: try_push_def try_applyChange_def assms callsUntilThrow_no_faults
      case_prod_unfold Let_def split: option.split)

lemma try_runTimers_no_faults:
  assumes "\<And>e. callThrows T e = None"
  shows "try_runTimers T now v = (fst (runTimers now v), snd (runTimers now v), None)"
  by (rule try_runTimers_normal)
    (simp add: try_runTimers_def try_handleConsolidated_def assms callsUntilThrow_no_faults
      case_prod_unfold Let_def split: option.split)

lemma try_run_no_faults:
  assumes "\<And>e c s f rc. engineThrows T e c s f rc = None" and "\<And>e. callThrows T e = None"
  shows "try_run L T cs v = (fst (run L cs v), snd (run L cs v), [])"
proof (induction cs arbitrary: v)
  case Nil
  show ?case by simp
next
  case (Cons x cs)
  obtain now c where x: "x = (now, c)" by (cases x)
  show ?case
    unfolding x
    by (simp add: try_runTimers_no_faults [OF assms(2)] try_push_no_faults [OF assms] Cons.IH
        case_prod_unfold Let_def)
qed

text \<open>The keys of the subscriptions stay distinct, as the keys of a \<open>Map\<close> are.\<close>

lemma distinct_subscriptions_constructed:
  "distinct (map fst (subscriptions (fst (ChangeListenerFactory L inp fmt od qc subs))))"
  by (simp add: ChangeListenerFactory_def case_prod_unfold Let_def fetchLoop_fst)

lemma distinct_subscriptions_add:
  "distinct (map fst (subscriptions v))
     \<Longrightarrow> distinct (map fst (subscriptions (addSubscriptions opts v)))"
  by (simp add: addSubscriptions_def distinct_update)

lemma distinct_subscriptions_remove:
  "distinct (map fst (subscriptions v))
     \<Longrightarrow> distinct (map fst (subscriptions (removeSubscriptions k v)))"
  by (simp add: removeSubscriptions_def distinct_delete)

section \<open>Subscribers and the life of a view\<close>

lemma constructed_subscriptions:
  "subscriptions (fst (ChangeListenerFactory L inp fmt od qc subs)) = [(key subs, subs)]"
  by (simp add: ChangeListenerFactory_def case_prod_unfold Let_def fetchLoop_fst)

lemma constructed_onDestroy:
  "onDestroy (fst (ChangeListenerFactory L inp fmt od qc subs))
     = (case od of None \<Rightarrow> Returns | Some t \<Rightarrow> t)"
  by (simp add: ChangeListenerFactory_def case_prod_unfold Let_def fetchLoop_fst)

lemma destroy_swallowed:
  "swallowed (onDestroy v)
     \<Longrightarrow> destroy v = (v\<lparr>consolidatedCallbacks := [], subscriptions := []\<rparr>, [OnDestroyCalled], None)"
  by (cases "onDestroy v" rule: swallowed.cases) (simp_all add: destroy_def)

lemma keys_delete: "set (map fst (AList.delete k al)) = set (map fst al) - {k}"
  by (simp add: delete_keys)

lemma keys_update: "set (map fst (AList.update k v al)) = insert k (set (map fst al))"
  using dom_update [of k v al] by simp

lemma delete_empty_iff: "AList.delete k al = [] \<longleftrightarrow> set (map fst al) \<subseteq> {k}"
proof -
  have "AList.delete k al = [] \<longleftrightarrow> set (map fst (AList.delete k al)) = {}" by simp
  then show ?thesis unfolding keys_delete by blast
qed

lemma tracks_subscribe:
  assumes "tracks clientID q w S"
  shows "tracks clientID q (fst (act L clientID q (Subscribe subs) w)) (insert (key subs) S)"
proof (cases "map_of (viewsMaterialized w) (getClientQueryKey clientID q)")
  case None
  then show ?thesis using assms
    by (simp add: tracks_def getMaterializedFactoryView_def materialize_def
        zeroChangeListenerFactory_def case_prod_unfold Let_def update_conv'
        constructed_subscriptions constructed_onDestroy)
next
  case (Some r)
  with assms obtain view where view: "heap w r = Some view" "S \<noteq> {}"
      "set (map fst (subscriptions view)) = S" "onDestroy view = q_onDestroy q"
    by (auto simp: tracks_def split: option.splits)
  show ?thesis using Some view
    by (simp add: tracks_def getMaterializedFactoryView_def addSubscriptions_def keys_update
        del: set_map)
qed

lemma tracks_cleanup:
  assumes "swallowed (q_onDestroy q)" and "tracks clientID q w S"
  shows "(case cleanupMaterializedFactoryView (getClientQueryKey clientID q) k w of
            (w', evs, err) \<Rightarrow>
              err = None \<and> tracks clientID q w' (S - {k})
              \<and> evs = (if S \<noteq> {} \<and> S \<subseteq> {k} then [OnDestroyCalled] else []))"
proof (cases "map_of (viewsMaterialized w) (getClientQueryKey clientID q)")
  case None
  then show ?thesis using assms(2)
    by (simp add: tracks_def cleanupMaterializedFactoryView_def)
next
  case (Some r)
  with assms(2) obtain view where view: "heap w r = Some view" "S \<noteq> {}"
      "set (map fst (subscriptions view)) = S" "onDestroy view = q_onDestroy q"
    by (auto simp: tracks_def split: option.splits)
  let ?v1 = "removeSubscriptions k view"
  have keys: "set (map fst (subscriptions ?v1)) = S - {k}"
    using view(3) by (simp add: removeSubscriptions_def keys_delete del: set_map)
  have has: "hasSubscribers ?v1 \<longleftrightarrow> \<not> S \<subseteq> {k}"
    using view(3) by (simp add: hasSubscribers_def removeSubscriptions_def delete_empty_iff
        del: set_map)
  have od: "onDestroy ?v1 = q_onDestroy q" using view(4) by (simp add: removeSubscriptions_def)
  show ?thesis
  proof (cases "S \<subseteq> {k}")
    case True
    then have empty: "S - {k} = {}" by blast
    have "swallowed (onDestroy ?v1)" using od assms(1) by simp
    note d = destroy_swallowed [OF this]
    show ?thesis using Some view True has empty
      by (simp add: cleanupMaterializedFactoryView_def d tracks_def delete_conv' Let_def)
  next
    case False
    then have "S - {k} \<noteq> {}" by blast
    then show ?thesis using Some view False has keys od
      by (simp add: cleanupMaterializedFactoryView_def tracks_def Let_def del: set_map)
  qed
qed

lemma tracks_act:
  assumes "swallowed (q_onDestroy q)" and "tracks clientID q w S"
  shows "tracks clientID q (fst (act L clientID q a w)) (registered S [a])"
proof (cases a)
  case (Subscribe subs)
  then show ?thesis using tracks_subscribe [OF assms(2)] by simp
next
  case (Cleanup k)
  then show ?thesis using tracks_cleanup [OF assms, of k]
    by (simp add: case_prod_unfold)
qed

lemma tracks_acts:
  "swallowed (q_onDestroy q) \<Longrightarrow> tracks clientID q w S
     \<Longrightarrow> tracks clientID q (acts L clientID q as w) (registered S as)"
proof (induction as arbitrary: w S)
  case Nil
  then show ?case by simp
next
  case (Cons a as)
  from tracks_act [OF Cons.prems, of L a]
  have "tracks clientID q (fst (act L clientID q a w)) (registered S [a])" .
  from Cons.IH [OF Cons.prems(1) this] show ?case by (cases a) simp_all
qed

lemmas run_defs =
  zeroQueryAtom_def getMaterializedFactoryView_def cleanupMaterializedFactoryView_def
  cleanup_def effect_def useZeroQueryAtom_def unmount_def materialize_def
  zeroChangeListenerFactory_def ChangeListenerFactory_def getClientQueryKey_def
  exampleQuery_def exampleInput_def exampleLib_def subscriber_def emptyWorld_def
  defaultFormat_def removeSubscriptions_def addSubscriptions_def hasSubscribers_def
  destroy_def Let_def

text \<open>
  C2, as the claim states it, fails for a view whose teardown throws an error that
  \<open>destroy\<close> lets through: the last subscription is removed and the view is torn down,
  but the error leaves \<open>cleanupMaterializedFactoryView\<close> before the \<open>delete\<close>, and the
  view stays in \<open>viewsMaterialized\<close> with no subscriber.
\<close>

theorem cleanup_keeps_view_when_teardown_fails_counterexample:
  "(case getMaterializedFactoryView exampleLib ''c'' (exampleQuery ''h'' (Throws (Error ''boom'')))
           (subscriber ''a'' 0) emptyWorld of
      (r, w1, e1) \<Rightarrow>
        (case cleanupMaterializedFactoryView ''h-c'' ''a'' w1 of
           (w2, e2, err) \<Rightarrow>
             map_option (\<lambda>v. map fst (subscriptions v)) (heap w1 r) = Some [''a'']
             \<and> map_option (\<lambda>v. map fst (subscriptions v)) (heap w2 r) = Some []
             \<and> e2 = [OnDestroyCalled]
             \<and> err = Some (Error ''boom'')
             \<and> map_of (viewsMaterialized w2) ''h-c'' = Some r))"
  by (simp add: run_defs)

text \<open>
  C2, amended. Take a query whose teardown returns or throws only the swallowed error.
  If the cache tracks the set \<open>S\<close> of registered keys for the query, then after any
  sequence of subscriptions and cleanups it tracks the set that the sequence leaves: the
  view is in the cache, with exactly those keys, as long as one key remains, and it is
  not in the cache when none remains. One cleanup under the key \<open>k\<close> returns normally,
  leaves the set \<open>S - {k}\<close>, and calls the teardown exactly when the view had
  subscribers and removing \<open>k\<close> leaves none.
\<close>

theorem subscribers_keep_view_alive:
  assumes "swallowed (q_onDestroy q)" and "tracks clientID q w S"
  shows "tracks clientID q (acts L clientID q as w) (registered S as)
    \<and> (case cleanupMaterializedFactoryView (getClientQueryKey clientID q) k w of
          (w', evs, err) \<Rightarrow>
            err = None \<and> tracks clientID q w' (S - {k})
            \<and> evs = (if S \<noteq> {} \<and> S \<subseteq> {k} then [OnDestroyCalled] else []))"
proof (intro conjI)
  show "tracks clientID q (acts L clientID q as w) (registered S as)"
    by (rule tracks_acts [OF assms])
  show "case cleanupMaterializedFactoryView (getClientQueryKey clientID q) k w of
          (w', evs, err) \<Rightarrow>
            err = None \<and> tracks clientID q w' (S - {k})
            \<and> evs = (if S \<noteq> {} \<and> S \<subseteq> {k} then [OnDestroyCalled] else [])"
    by (rule tracks_cleanup [OF assms])
qed

theorem subscribers_keep_view_alive_witness:
  "swallowed (q_onDestroy (exampleQuery ''h'' Returns))
   \<and> tracks ''c'' (exampleQuery ''h'' Returns) (emptyWorld :: (row, unit, unit) world) {}
   \<and> registered {} exampleActions = {''b''}
   \<and> tracks ''c'' (exampleQuery ''h'' Returns)
        (acts exampleLib ''c'' (exampleQuery ''h'' Returns) exampleActions emptyWorld) {''b''}
   \<and> map_of (viewsMaterialized
        (acts exampleLib ''c'' (exampleQuery ''h'' Returns) exampleActions emptyWorld)) ''h-c''
       = Some 0
   \<and> map_of (viewsMaterialized
        (acts exampleLib ''c'' (exampleQuery ''h'' Returns) (exampleActions @ [Cleanup ''b''])
           emptyWorld)) ''h-c''
       = None"
proof -
  have h1: "swallowed (q_onDestroy (exampleQuery ''h'' Returns))"
    by (simp add: exampleQuery_def)
  have h2: "tracks ''c'' (exampleQuery ''h'' Returns) (emptyWorld :: (row, unit, unit) world) {}"
    by (simp add: tracks_def emptyWorld_def)
  have r: "registered {} exampleActions = {''b''}"
    by (auto simp: exampleActions_def subscriber_def)
  from subscribers_keep_view_alive [OF h1 h2, of exampleLib exampleActions]
  have t: "tracks ''c'' (exampleQuery ''h'' Returns)
        (acts exampleLib ''c'' (exampleQuery ''h'' Returns) exampleActions emptyWorld) {''b''}"
    by (simp add: r)
  have alive: "map_of (viewsMaterialized
        (acts exampleLib ''c'' (exampleQuery ''h'' Returns) exampleActions emptyWorld)) ''h-c''
       = Some 0"
    by (simp add: exampleActions_def run_defs)
  have gone: "map_of (viewsMaterialized
        (acts exampleLib ''c'' (exampleQuery ''h'' Returns) (exampleActions @ [Cleanup ''b''])
           emptyWorld)) ''h-c''
       = None"
    by (simp add: exampleActions_def run_defs)
  show ?thesis using h1 h2 r t alive gone by blast
qed

section \<open>The memoized atom and the hook\<close>

text \<open>A call of \<open>zeroQueryAtom\<close> that finds its key in the cache changes nothing.\<close>

lemma zeroQueryAtom_memoized:
  "map_of (memoize_cache w) (getClientQueryKey clientID q) = Some res
     \<Longrightarrow> zeroQueryAtom L clientID q subs store sync w = (res, w, [])"
  by (simp add: zeroQueryAtom_def)

text \<open>
  C4. Two calls of \<open>zeroQueryAtom\<close> for the same query, with the subscription keys
  \<open>a\<close> and \<open>b\<close>. The second call returns the memoized result of the first (the same
  atom and the same view), and the view has the subscription \<open>a\<close> only: the callbacks
  of the second caller are not registered, and the \<open>cleanup\<close> it is given removes the
  key \<open>a\<close>.
\<close>

theorem memoized_atom_drops_second_subscriber:
  "(case zeroQueryAtom exampleLib ''c'' (exampleQuery ''h'' Returns) (subscriber ''a'' 0) 0 None
           emptyWorld of
      (res1, w1, e1) \<Rightarrow>
        (case zeroQueryAtom exampleLib ''c'' (exampleQuery ''h'' Returns) (subscriber ''b'' 10) 0
                None w1 of
           (res2, w2, e2) \<Rightarrow>
             res2 = res1
             \<and> viewsMaterialized w2 = [(''h-c'', materializedFactoryView res2)]
             \<and> map_option (\<lambda>v. map fst (subscriptions v)) (heap w2 (materializedFactoryView res2))
                 = Some [''a'']
             \<and> cleanup_subscriptionKey res2 = ''a''))"
  by (simp add: run_defs)

text \<open>\<open>getMaterializedFactoryView\<close> itself registers both callers on the one view.\<close>

lemma getMaterializedFactoryView_registers_both:
  "(case getMaterializedFactoryView exampleLib ''c'' (exampleQuery ''h'' Returns)
           (subscriber ''a'' 0) emptyWorld of
      (r1, w1, e1) \<Rightarrow>
        (case getMaterializedFactoryView exampleLib ''c'' (exampleQuery ''h'' Returns)
                (subscriber ''b'' 10) w1 of
           (r2, w2, e2) \<Rightarrow>
             r2 = r1
             \<and> map_option (\<lambda>v. map fst (subscriptions v)) (heap w2 r2) = Some [''a'', ''b'']))"
  by (simp add: run_defs)

text \<open>
  C5. A component with the key \<open>a\<close> mounts and unmounts. The effect of the hook returns
  no cleanup function, so after the unmount the view is still in the cache and still has
  the subscription \<open>a\<close>; no teardown was called.
\<close>

theorem unmount_keeps_subscription:
  "(case useZeroQueryAtom exampleLib ''c'' 0 None (exampleQuery ''h'' Returns) (subscriber ''a'' 0)
           emptyWorld of
      (c, w1, e1, err1) \<Rightarrow>
        (case unmount c w1 of
           (w2, e2) \<Rightarrow>
             map_of (viewsMaterialized w2) ''h-c'' = Some 0
             \<and> map_option (\<lambda>v. map fst (subscriptions v)) (heap w2 0) = Some [''a'']
             \<and> e2 = []))"
  by (simp add: run_defs)

text \<open>
  C6. Component A (key \<open>a\<close>) is mounted on the query \<open>h1\<close>, component B (key \<open>b\<close>) on
  \<open>h2\<close>, and A renders again with \<open>h2\<close>. The hook calls the \<open>cleanup\<close> of the memoized
  result for \<open>h2\<close>, which removes the key \<open>b\<close> from the view of \<open>h1\<close>. The new query
  key is recorded, but the view of \<open>h1\<close> stays in the cache with the subscription \<open>a\<close>
  of A, and A is not registered on the view of \<open>h2\<close>.
\<close>

theorem query_change_removes_foreign_key:
  "(case useZeroQueryAtom exampleLib ''c'' 0 None (exampleQuery ''h1'' Returns)
           (subscriber ''a'' 0) emptyWorld of
      (cA, w1, e1, err1) \<Rightarrow>
        (case useZeroQueryAtom exampleLib ''c'' 0 None (exampleQuery ''h2'' Returns)
                (subscriber ''b'' 10) w1 of
           (cB, w2, e2, err2) \<Rightarrow>
             (case useZeroQueryAtom exampleLib ''c'' 0 (Some cA) (exampleQuery ''h2'' Returns)
                     (subscriber ''a'' 0) w2 of
                (cA', w3, e3, err3) \<Rightarrow>
                  previousQueryKey cA = ''h1-c''
                  \<and> previousQueryKey cA' = ''h2-c''
                  \<and> map_of (viewsMaterialized w3) ''h1-c'' = Some 0
                  \<and> map_option (\<lambda>v. map fst (subscriptions v)) (heap w3 0) = Some [''a'']
                  \<and> map_option (\<lambda>v. map fst (subscriptions v)) (heap w3 1) = Some [''b'']
                  \<and> e3 = [] \<and> err3 = None)))"
  by (simp add: run_defs)

end
